theory Spec2Isabelle
  imports Complex_Main "HOL-Library.Char_ord" "HOL-Library.List_Lexorder"
begin

section \<open>Values\<close>

text \<open>
  A number of Python, numpy or pandas (\<open>float\<close>, \<open>float64\<close>, \<open>int64\<close>) is modelled by
  its value: a finite one is \<open>Fin r\<close>, and the three special floats are constructors of
  their own. The width of a number, its dtype and the rounding of a literal are below this
  model; a float literal such as \<open>0.1\<close> of the source is the real \<open>0.1\<close> here.
  Comparisons follow IEEE 754: every ordered comparison with \<open>NaN\<close> is false.
\<close>

datatype num = Fin real | PInf | NInf | NaN

fun num_less :: "num \<Rightarrow> num \<Rightarrow> bool" where
  "num_less NaN _ = False"
| "num_less _ NaN = False"
| "num_less (Fin a) (Fin b) = (a < b)"
| "num_less (Fin _) PInf = True"
| "num_less (Fin _) NInf = False"
| "num_less PInf _ = False"
| "num_less NInf NInf = False"
| "num_less NInf _ = True"

fun num_le :: "num \<Rightarrow> num \<Rightarrow> bool" where
  "num_le NaN _ = False"
| "num_le _ NaN = False"
| "num_le (Fin a) (Fin b) = (a \<le> b)"
| "num_le (Fin _) PInf = True"
| "num_le (Fin _) NInf = False"
| "num_le PInf PInf = True"
| "num_le PInf _ = False"
| "num_le NInf _ = True"

text \<open>
  The value of a field of the input record, or of a cell of the one-row DataFrame built
  from it: \<open>None\<close>, a \<open>str\<close>, or a number. These are the values the form of
  \<open>app.py\<close> and the record of \<open>simple_test.py\<close> supply (strings from the select boxes,
  floats from the number inputs and sliders), with \<open>None\<close> for a null field.
\<close>

datatype pyval = VNone | VStr string | VNum num

datatype error = ValueError | TypeError | KeyError string | IndexError

text \<open>
  The input record is a \<open>dict\<close>; the DataFrame \<open>pd.DataFrame([input_data])\<close> that both
  callers build from it has one row and one column for each key. Both are maps from the
  key (the column label) to the value. The order of the columns of the input frame is not
  observed by the code, which selects the columns by label.
\<close>

type_synonym record_dict = "string \<rightharpoonup> pyval"
type_synonym frame = "string \<rightharpoonup> pyval"

text \<open>
  The conversion of a string to a float is a builtin (\<open>float(s)\<close> of Python in the
  validator, the parser of \<open>pd.to_numeric\<close> in the preprocessor). It is a parameter of
  the model: \<open>None\<close> where the string is not the text of a number.
\<close>

type_synonym str_parser = "string \<Rightarrow> num option"

text \<open>\<open>float(x)\<close>: \<open>TypeError\<close> on \<open>None\<close>, \<open>ValueError\<close> on a string that does not parse.\<close>

fun py_float :: "str_parser \<Rightarrow> pyval \<Rightarrow> error + num" where
  "py_float parse VNone = Inl TypeError"
| "py_float parse (VStr s) = (case parse s of None \<Rightarrow> Inl ValueError | Some n \<Rightarrow> Inr n)"
| "py_float parse (VNum n) = Inr n"

section \<open>The validator: \<open>validate_input_data\<close> of \<open>utils/preprocessor.py\<close>\<close>

definition required_fields :: "string list" where
  "required_fields =
    [''Substance'',
     ''Unit'',
     ''Supply Chain Emission Factors without Margins'',
     ''Margins of Supply Chain Emission Factors'',
     ''Source'']"

definition numeric_fields :: "string list" where
  "numeric_fields =
    [''Supply Chain Emission Factors without Margins'',
     ''Margins of Supply Chain Emission Factors'']"

definition dq_fields :: "string list" where
  "dq_fields =
    [''DQ ReliabilityScore of Factors without Margins'',
     ''DQ TemporalCorrelation of Factors without Margins'',
     ''DQ GeographicalCorrelation of Factors without Margins'',
     ''DQ TechnologicalCorrelation of Factors without Margins'',
     ''DQ DataCollection of Factors without Margins'']"

text \<open>
  Each of the three loops returns from the function at its first violation: the result of a
  loop is \<open>Some\<close> of the returned pair then, and \<open>None\<close> when the loop runs to its end.
\<close>

fun check_required :: "string list \<Rightarrow> record_dict \<Rightarrow> (bool \<times> string) option" where
  "check_required [] input_data = None"
| "check_required (field # fields) input_data =
     (case input_data field of
        None \<Rightarrow> Some (False, ''Missing required field: '' @ field)
      | Some v \<Rightarrow>
          if v = VNone then Some (False, ''Field cannot be None: '' @ field)
          else check_required fields input_data)"

fun check_numeric :: "str_parser \<Rightarrow> string list \<Rightarrow> record_dict \<Rightarrow> (bool \<times> string) option" where
  "check_numeric parse [] input_data = None"
| "check_numeric parse (field # fields) input_data =
     (case input_data field of
        None \<Rightarrow> check_numeric parse fields input_data
      | Some v \<Rightarrow>
          (case py_float parse v of
             Inl e \<Rightarrow> Some (False, ''Field must be numeric: '' @ field)
           | Inr val \<Rightarrow>
               if num_less val (Fin 0) then Some (False, ''Field must be non-negative: '' @ field)
               else check_numeric parse fields input_data))"

fun check_dq :: "str_parser \<Rightarrow> string list \<Rightarrow> record_dict \<Rightarrow> (bool \<times> string) option" where
  "check_dq parse [] input_data = None"
| "check_dq parse (field # fields) input_data =
     (case input_data field of
        None \<Rightarrow> check_dq parse fields input_data
      | Some v \<Rightarrow>
          (case py_float parse v of
             Inl e \<Rightarrow> Some (False, ''DQ field must be numeric: '' @ field)
           | Inr val \<Rightarrow>
               if \<not> (num_le (Fin 0) val \<and> num_le val (Fin 1))
               then Some (False, ''DQ field must be between 0 and 1: '' @ field)
               else check_dq parse fields input_data))"

definition validate_input_data :: "str_parser \<Rightarrow> record_dict \<Rightarrow> bool \<times> string" where
  "validate_input_data parse input_data =
     (case check_required required_fields input_data of
        Some r \<Rightarrow> r
      | None \<Rightarrow>
          (case check_numeric parse numeric_fields input_data of
             Some r \<Rightarrow> r
           | None \<Rightarrow>
               (case check_dq parse dq_fields input_data of
                  Some r \<Rightarrow> r
                | None \<Rightarrow> (True, ''Valid''))))"

section \<open>The preprocessor: \<open>preprocess_input\<close> of \<open>utils/preprocessor.py\<close>\<close>

definition expected_columns :: "string list" where
  "expected_columns =
    [''Substance'',
     ''Unit'',
     ''Supply Chain Emission Factors without Margins'',
     ''Margins of Supply Chain Emission Factors'',
     ''DQ ReliabilityScore of Factors without Margins'',
     ''DQ TemporalCorrelation of Factors without Margins'',
     ''DQ GeographicalCorrelation of Factors without Margins'',
     ''DQ TechnologicalCorrelation of Factors without Margins'',
     ''DQ DataCollection of Factors without Margins'',
     ''Source'']"

definition categorical_columns :: "string list" where
  "categorical_columns = [''Substance'', ''Unit'', ''Source'']"

definition numeric_columns :: "string list" where
  "numeric_columns =
    [''Supply Chain Emission Factors without Margins'',
     ''Margins of Supply Chain Emission Factors'',
     ''DQ ReliabilityScore of Factors without Margins'',
     ''DQ TemporalCorrelation of Factors without Margins'',
     ''DQ GeographicalCorrelation of Factors without Margins'',
     ''DQ TechnologicalCorrelation of Factors without Margins'',
     ''DQ DataCollection of Factors without Margins'']"

text \<open>The body of the first loop: a column that is missing is added with its default.\<close>

definition fill_missing_col :: "string \<Rightarrow> frame \<Rightarrow> frame" where
  "fill_missing_col col df =
     (case df col of
        Some v \<Rightarrow> df
      | None \<Rightarrow>
          if col \<in> set [''Substance'', ''Unit'', ''Source'']
          then df(col \<mapsto> VStr ''Unknown'')
          else df(col \<mapsto> VNum (Fin 0)))"

text \<open>
  The vocabulary of a categorical column. The last branch of the source,
  \<open>df[col].unique().tolist()\<close>, is for a column other than the three; the loop runs over
  \<open>categorical_columns\<close> only and never takes it, and the model has no vocabulary there.
\<close>

definition expected_categories :: "string \<Rightarrow> string list option" where
  "expected_categories col =
     (if col = ''Substance''
      then Some [''carbon dioxide'', ''methane'', ''nitrous oxide'', ''other GHGs'']
      else if col = ''Unit''
      then Some [''kg/2018 USD, purchaser price'', ''kg CO2e/2018 USD, purchaser price'']
      else if col = ''Source''
      then Some [''Commodity'', ''Industry'']
      else None)"

text \<open>
  \<open>LabelEncoder\<close> of scikit-learn: \<open>fit\<close> stores the distinct labels in sorted order
  (\<open>classes_ = np.unique(y)\<close>; strings are compared by code point), and \<open>transform\<close>
  gives a label its position in \<open>classes_\<close>, raising \<open>ValueError\<close> on a label that was
  not fitted.
\<close>

definition le_fit :: "string list \<Rightarrow> string list" where
  "le_fit y = sort (remdups y)"

fun index_of :: "'a \<Rightarrow> 'a list \<Rightarrow> nat" where
  "index_of x [] = 0"
| "index_of x (y # ys) = (if x = y then 0 else Suc (index_of x ys))"

definition le_transform :: "string list \<Rightarrow> pyval \<Rightarrow> error + pyval" where
  "le_transform classes v =
     (case v of
        VStr s \<Rightarrow>
          if s \<in> set classes then Inr (VNum (Fin (real (index_of s classes))))
          else Inl ValueError
      | _ \<Rightarrow> Inl ValueError)"

text \<open>
  \<open>x in expected_categories\<close>: no value other than a string is in a list of strings.
\<close>

definition py_in :: "pyval \<Rightarrow> string list \<Rightarrow> bool" where
  "py_in x cats = (case x of VStr s \<Rightarrow> s \<in> set cats | _ \<Rightarrow> False)"

text \<open>
  The lambda of line 61: a value of the vocabulary is kept, any other value is replaced
  by \<open>expected_categories[0]\<close>.
\<close>

definition replace_unseen :: "string list \<Rightarrow> pyval \<Rightarrow> error + pyval" where
  "replace_unseen cats x =
     (if py_in x cats then Inr x
      else (case cats of [] \<Rightarrow> Inl IndexError | c # _ \<Rightarrow> Inr (VStr c)))"

text \<open>
  Lines 58 to 62 on the cell of the column: the encoder is fitted on the vocabulary, the
  value is replaced when it is unseen, and the encoder transforms it.
\<close>

definition encode_value :: "string list \<Rightarrow> pyval \<Rightarrow> error + pyval" where
  "encode_value cats x =
     (let classes = le_fit cats
      in case replace_unseen cats x of
           Inl e \<Rightarrow> Inl e
         | Inr x' \<Rightarrow> le_transform classes x')"

text \<open>The body of the second loop, for one column.\<close>

definition encode_col :: "string \<Rightarrow> frame \<Rightarrow> error + frame" where
  "encode_col col df =
     (case df col of
        None \<Rightarrow> Inr df
      | Some x \<Rightarrow>
          (case expected_categories col of
             None \<Rightarrow> Inr df
           | Some cats \<Rightarrow>
               (case encode_value cats x of
                  Inl e \<Rightarrow> Inl e
                | Inr code \<Rightarrow> Inr (df(col \<mapsto> code)))))"

fun encode_all :: "string list \<Rightarrow> frame \<Rightarrow> error + frame" where
  "encode_all [] df = Inr df"
| "encode_all (col # cols) df =
     (case encode_col col df of Inl e \<Rightarrow> Inl e | Inr df' \<Rightarrow> encode_all cols df')"

text \<open>
  \<open>pd.to_numeric(..., errors='coerce')\<close> on a cell: a number stays, a string is parsed,
  and what is not a number becomes \<open>NaN\<close>; \<open>fillna(0.0)\<close> then replaces \<open>NaN\<close>.
\<close>

fun to_numeric :: "str_parser \<Rightarrow> pyval \<Rightarrow> num" where
  "to_numeric parse VNone = NaN"
| "to_numeric parse (VStr s) = (case parse s of None \<Rightarrow> NaN | Some n \<Rightarrow> n)"
| "to_numeric parse (VNum n) = n"

definition fillna :: "num \<Rightarrow> num \<Rightarrow> num" where
  "fillna d n = (if n = NaN then d else n)"

definition coerce_col :: "str_parser \<Rightarrow> string \<Rightarrow> frame \<Rightarrow> frame" where
  "coerce_col parse col df =
     (case df col of
        None \<Rightarrow> df
      | Some v \<Rightarrow> df(col \<mapsto> VNum (fillna (Fin 0) (to_numeric parse v))))"

text \<open>
  \<open>df[expected_columns]\<close>: the row of the frame in the order of the labels given,
  \<open>KeyError\<close> on a label that is not a column.
\<close>

fun select_columns :: "string list \<Rightarrow> frame \<Rightarrow> error + (string \<times> pyval) list" where
  "select_columns [] df = Inr []"
| "select_columns (col # cols) df =
     (case df col of
        None \<Rightarrow> Inl (KeyError col)
      | Some v \<Rightarrow>
          (case select_columns cols df of
             Inl e \<Rightarrow> Inl e
           | Inr row \<Rightarrow> Inr ((col, v) # row)))"

definition preprocess_input :: "str_parser \<Rightarrow> frame \<Rightarrow> error + (string \<times> pyval) list" where
  "preprocess_input parse input_df =
     (let df = input_df;
          df = fold fill_missing_col expected_columns df
      in case encode_all categorical_columns df of
           Inl e \<Rightarrow> Inl e
         | Inr df \<Rightarrow>
             select_columns expected_columns (fold (coerce_col parse) numeric_columns df))"

text \<open>The feature vector is the row of values, \<open>input_df.iloc[0].values\<close>.\<close>

definition feature_vector :: "error + (string \<times> pyval) list \<Rightarrow> error + pyval list" where
  "feature_vector r = (case r of Inl e \<Rightarrow> Inl e | Inr row \<Rightarrow> Inr (map snd row))"

subsection \<open>The call on the caller's object\<close>

text \<open>
  DataFrames are mutable objects, and \<open>df[col] = ...\<close> writes into the object that
  \<open>df\<close> refers to. The store holds the frames that are alive; a reference is an index
  into it. \<open>input_df.copy()\<close> allocates a new object with the content of the old one,
  the three loops write into the object of \<open>df\<close>, and the function returns the
  selection together with the store it leaves behind.
\<close>

type_synonym store = "frame list"

fun encode_all_store :: "string list \<Rightarrow> nat \<Rightarrow> store \<Rightarrow> error option \<times> store" where
  "encode_all_store [] df st = (None, st)"
| "encode_all_store (col # cols) df st =
     (case encode_col col (st ! df) of
        Inl e \<Rightarrow> (Some e, st)
      | Inr f \<Rightarrow> encode_all_store cols df (st[df := f]))"

definition preprocess_input_store ::
    "str_parser \<Rightarrow> nat \<Rightarrow> store \<Rightarrow> (error + (string \<times> pyval) list) \<times> store" where
  "preprocess_input_store parse input_df st =
     (let df = length st;
          st = st @ [st ! input_df];
          st = fold (\<lambda>col s. s[df := fill_missing_col col (s ! df)]) expected_columns st
      in case encode_all_store categorical_columns df st of
           (Some e, st) \<Rightarrow> (Inl e, st)
         | (None, st) \<Rightarrow>
             (let st = fold (\<lambda>col s. s[df := coerce_col parse col (s ! df)]) numeric_columns st
              in (select_columns expected_columns (st ! df), st)))"

section \<open>The preprocessor of \<open>simple_test.py\<close>\<close>

definition substance_map :: "(string \<times> nat) list" where
  "substance_map =
     [(''carbon dioxide'', 0), (''methane'', 1), (''nitrous oxide'', 2), (''other GHGs'', 3)]"

definition unit_map :: "(string \<times> nat) list" where
  "unit_map = [(''kg/2018 USD, purchaser price'', 0), (''kg CO2e/2018 USD, purchaser price'', 1)]"

definition source_map :: "(string \<times> nat) list" where
  "source_map = [(''Commodity'', 0), (''Industry'', 1)]"

text \<open>\<open>Series.map(dict)\<close> on a cell: a value that is not a key of the dict becomes \<open>NaN\<close>.\<close>

definition series_map :: "(string \<times> nat) list \<Rightarrow> pyval \<Rightarrow> pyval" where
  "series_map m v =
     (case v of
        VStr s \<Rightarrow> (case map_of m s of Some k \<Rightarrow> VNum (Fin (real k)) | None \<Rightarrow> VNum NaN)
      | _ \<Rightarrow> VNum NaN)"

text \<open>\<open>df[col] = df[col].map(m)\<close>: \<open>KeyError\<close> when the frame has no such column.\<close>

definition map_col :: "string \<Rightarrow> (string \<times> nat) list \<Rightarrow> frame \<Rightarrow> error + frame" where
  "map_col col m df =
     (case df col of
        None \<Rightarrow> Inl (KeyError col)
      | Some v \<Rightarrow> Inr (df(col \<mapsto> series_map m v)))"

text \<open>The list \<open>expected_columns\<close> of \<open>simple_test.py\<close> is the list of the module, label by label.\<close>

definition preprocess_input_simple_test :: "frame \<Rightarrow> error + (string \<times> pyval) list" where
  "preprocess_input_simple_test input_df =
     (let df = input_df
      in case map_col ''Substance'' substance_map df of
           Inl e \<Rightarrow> Inl e
         | Inr df \<Rightarrow>
             (case map_col ''Unit'' unit_map df of
                Inl e \<Rightarrow> Inl e
              | Inr df \<Rightarrow>
                  (case map_col ''Source'' source_map df of
                     Inl e \<Rightarrow> Inl e
                   | Inr df \<Rightarrow> select_columns expected_columns df)))"

section \<open>The impact level of \<open>app.py\<close>\<close>

text \<open>Lines 1164 to 1170; \<open>a > b\<close> is \<open>num_less b a\<close>.\<close>

definition impact_level :: "num \<Rightarrow> string" where
  "impact_level prediction_value =
     (if num_less (Fin 0.1) prediction_value then ''High''
      else if num_less (Fin 0.05) prediction_value then ''Medium''
      else ''Low'')"

section \<open>Records and cells used in the statements\<close>

text \<open>The cell of a column after the first loop: the value given, or the default.\<close>

definition default_cell :: "string \<Rightarrow> pyval" where
  "default_cell col =
     (if col \<in> set [''Substance'', ''Unit'', ''Source''] then VStr ''Unknown'' else VNum (Fin 0))"

definition cell_or_default :: "frame \<Rightarrow> string \<Rightarrow> pyval" where
  "cell_or_default df col = (case df col of Some v \<Rightarrow> v | None \<Rightarrow> default_cell col)"

text \<open>The cell of a numeric column after the third loop.\<close>

definition numeric_cell :: "str_parser \<Rightarrow> frame \<Rightarrow> string \<Rightarrow> pyval" where
  "numeric_cell parse df col = VNum (fillna (Fin 0) (to_numeric parse (cell_or_default df col)))"

text \<open>The record \<open>input_data\<close> of \<open>simple_test.py\<close>, which is scenario 1 of the specification.\<close>

definition scenario1 :: record_dict where
  "scenario1 =
     [''Substance'' \<mapsto> VStr ''carbon dioxide'',
      ''Unit'' \<mapsto> VStr ''kg/2018 USD, purchaser price'',
      ''Supply Chain Emission Factors without Margins'' \<mapsto> VNum (Fin 0.1),
      ''Margins of Supply Chain Emission Factors'' \<mapsto> VNum (Fin 0.01),
      ''DQ ReliabilityScore of Factors without Margins'' \<mapsto> VNum (Fin 0.5),
      ''DQ TemporalCorrelation of Factors without Margins'' \<mapsto> VNum (Fin 0.5),
      ''DQ GeographicalCorrelation of Factors without Margins'' \<mapsto> VNum (Fin 0.5),
      ''DQ TechnologicalCorrelation of Factors without Margins'' \<mapsto> VNum (Fin 0.5),
      ''DQ DataCollection of Factors without Margins'' \<mapsto> VNum (Fin 0.5),
      ''Source'' \<mapsto> VStr ''Industry'']"





text \<open>The record of scenario 1 with its margin given as a string.\<close>

definition string_margin :: record_dict where
  "string_margin = scenario1(''Margins of Supply Chain Emission Factors'' \<mapsto> VStr ''0.01'')"

section \<open>The violations of a record, in the order of the specification\<close>

text \<open>
  The specification lists three kinds of violation and the order in which they are
  looked for: the required fields that are absent or null, then the required numeric
  fields that do not parse or are negative, then the data-quality scores that do not
  parse or are out of range. \<open>all_violations\<close> collects every one of them, with the
  message the validator has for it, in that order.
\<close>

definition required_violation :: "record_dict \<Rightarrow> string \<Rightarrow> string list" where
  "required_violation d f =
     (case d f of
        None \<Rightarrow> [''Missing required field: '' @ f]
      | Some v \<Rightarrow> if v = VNone then [''Field cannot be None: '' @ f] else [])"

definition numeric_violation :: "str_parser \<Rightarrow> record_dict \<Rightarrow> string \<Rightarrow> string list" where
  "numeric_violation p d f =
     (case d f of
        None \<Rightarrow> []
      | Some v \<Rightarrow>
          (case py_float p v of
             Inl e \<Rightarrow> [''Field must be numeric: '' @ f]
           | Inr n \<Rightarrow> if num_less n (Fin 0) then [''Field must be non-negative: '' @ f] else []))"

definition dq_violation :: "str_parser \<Rightarrow> record_dict \<Rightarrow> string \<Rightarrow> string list" where
  "dq_violation p d f =
     (case d f of
        None \<Rightarrow> []
      | Some v \<Rightarrow>
          (case py_float p v of
             Inl e \<Rightarrow> [''DQ field must be numeric: '' @ f]
           | Inr n \<Rightarrow>
               if num_le (Fin 0) n \<and> num_le n (Fin 1) then []
               else [''DQ field must be between 0 and 1: '' @ f]))"

definition all_violations :: "str_parser \<Rightarrow> record_dict \<Rightarrow> string list" where
  "all_violations p d =
     concat (map (required_violation d) required_fields)
     @ concat (map (numeric_violation p d) numeric_fields)
     @ concat (map (dq_violation p d) dq_fields)"

definition first_violation :: "string list \<Rightarrow> (bool \<times> string) option" where
  "first_violation ms = (case ms of [] \<Rightarrow> None | m # _ \<Rightarrow> Some (False, m))"

section \<open>The loops of the preprocessor, column by column\<close>

lemma fold_fill_missing:
  "fold fill_missing_col cs df c =
     (if c \<in> set cs then Some (cell_or_default df c) else df c)"
proof (induction cs arbitrary: df)
  case Nil
  then show ?case by simp
next
  case (Cons a cs)
  show ?case
    unfolding fold_Cons comp_apply Cons.IH
    by (auto simp: fill_missing_col_def default_cell_def cell_or_default_def split: option.splits)
qed

lemma fold_coerce:
  "distinct cs \<Longrightarrow> fold (coerce_col p) cs df c =
     (if c \<in> set cs then map_option (\<lambda>v. VNum (fillna (Fin 0) (to_numeric p v))) (df c) else df c)"
proof (induction cs arbitrary: df)
  case Nil
  then show ?case by simp
next
  case (Cons a cs)
  from Cons.prems have d: "distinct cs" and na: "a \<notin> set cs" by simp_all
  show ?case
    unfolding fold_Cons comp_apply Cons.IH[OF d]
    using na by (auto simp: coerce_col_def split: option.splits)
qed

lemma distinct_numeric_columns: "distinct numeric_columns"
  by (simp add: numeric_columns_def)

lemma encode_all_three:
  assumes a: "encode_value [''carbon dioxide'', ''methane'', ''nitrous oxide'', ''other GHGs'']
                (cell_or_default df ''Substance'') = Inr a"
    and b: "encode_value [''kg/2018 USD, purchaser price'', ''kg CO2e/2018 USD, purchaser price'']
                (cell_or_default df ''Unit'') = Inr b"
    and c: "encode_value [''Commodity'', ''Industry''] (cell_or_default df ''Source'') = Inr c"
  shows "encode_all categorical_columns (fold fill_missing_col expected_columns df)
     = Inr ((fold fill_missing_col expected_columns df)
              (''Substance'' \<mapsto> a, ''Unit'' \<mapsto> b, ''Source'' \<mapsto> c))"
proof -
  define df1 where "df1 = fold fill_missing_col expected_columns df"
  have s: "df1 ''Substance'' = Some (cell_or_default df ''Substance'')"
    unfolding df1_def fold_fill_missing by (simp add: expected_columns_def)
  have u: "df1 ''Unit'' = Some (cell_or_default df ''Unit'')"
    unfolding df1_def fold_fill_missing by (simp add: expected_columns_def)
  have so: "df1 ''Source'' = Some (cell_or_default df ''Source'')"
    unfolding df1_def fold_fill_missing by (simp add: expected_columns_def)
  have e1: "encode_col ''Substance'' df1 = Inr (df1(''Substance'' \<mapsto> a))"
    using s a by (simp add: encode_col_def expected_categories_def)
  have u2: "(df1(''Substance'' \<mapsto> a)) ''Unit'' = Some (cell_or_default df ''Unit'')"
    using u by simp
  have e2: "encode_col ''Unit'' (df1(''Substance'' \<mapsto> a))
              = Inr (df1(''Substance'' \<mapsto> a, ''Unit'' \<mapsto> b))"
    using u2 b by (simp add: encode_col_def expected_categories_def)
  have so2: "(df1(''Substance'' \<mapsto> a, ''Unit'' \<mapsto> b)) ''Source''
              = Some (cell_or_default df ''Source'')"
    using so by simp
  have e3: "encode_col ''Source'' (df1(''Substance'' \<mapsto> a, ''Unit'' \<mapsto> b))
              = Inr (df1(''Substance'' \<mapsto> a, ''Unit'' \<mapsto> b, ''Source'' \<mapsto> c))"
    using so2 c by (simp add: encode_col_def expected_categories_def)
  show ?thesis
    unfolding df1_def[symmetric] by (simp add: categorical_columns_def e1 e2 e3)
qed

lemma preprocess_input_row:
  assumes a: "encode_value [''carbon dioxide'', ''methane'', ''nitrous oxide'', ''other GHGs'']
                (cell_or_default df ''Substance'') = Inr a"
    and b: "encode_value [''kg/2018 USD, purchaser price'', ''kg CO2e/2018 USD, purchaser price'']
                (cell_or_default df ''Unit'') = Inr b"
    and c: "encode_value [''Commodity'', ''Industry''] (cell_or_default df ''Source'') = Inr c"
  shows "preprocess_input p df =
    Inr [(''Substance'', a),
         (''Unit'', b),
         (''Supply Chain Emission Factors without Margins'',
            numeric_cell p df ''Supply Chain Emission Factors without Margins''),
         (''Margins of Supply Chain Emission Factors'',
            numeric_cell p df ''Margins of Supply Chain Emission Factors''),
         (''DQ ReliabilityScore of Factors without Margins'',
            numeric_cell p df ''DQ ReliabilityScore of Factors without Margins''),
         (''DQ TemporalCorrelation of Factors without Margins'',
            numeric_cell p df ''DQ TemporalCorrelation of Factors without Margins''),
         (''DQ GeographicalCorrelation of Factors without Margins'',
            numeric_cell p df ''DQ GeographicalCorrelation of Factors without Margins''),
         (''DQ TechnologicalCorrelation of Factors without Margins'',
            numeric_cell p df ''DQ TechnologicalCorrelation of Factors without Margins''),
         (''DQ DataCollection of Factors without Margins'',
            numeric_cell p df ''DQ DataCollection of Factors without Margins''),
         (''Source'', c)]"
proof -
  define df1 where "df1 = fold fill_missing_col expected_columns df"
  define df2 where "df2 = df1(''Substance'' \<mapsto> a, ''Unit'' \<mapsto> b, ''Source'' \<mapsto> c)"
  define df3 where "df3 = fold (coerce_col p) numeric_columns df2"
  have enc: "encode_all categorical_columns df1 = Inr df2"
    unfolding df1_def df2_def by (rule encode_all_three[OF a b c])
  have l1: "\<And>col. col \<in> set expected_columns \<Longrightarrow> df1 col = Some (cell_or_default df col)"
    unfolding df1_def fold_fill_missing by simp
  have l3: "\<And>col. df3 col = (if col \<in> set numeric_columns
       then map_option (\<lambda>v. VNum (fillna (Fin 0) (to_numeric p v))) (df2 col) else df2 col)"
    unfolding df3_def by (rule fold_coerce[OF distinct_numeric_columns])
  have c0: "df3 ''Substance'' = Some a"
    unfolding l3 by (simp add: numeric_columns_def df2_def)
  have c1: "df3 ''Unit'' = Some b"
    unfolding l3 by (simp add: numeric_columns_def df2_def)
  have c9: "df3 ''Source'' = Some c"
    unfolding l3 by (simp add: numeric_columns_def df2_def)
  have n: "\<And>col. col \<in> set numeric_columns \<Longrightarrow> df3 col = Some (numeric_cell p df col)"
  proof -
    fix col assume h: "col \<in> set numeric_columns"
    then have e: "col \<in> set expected_columns" and ne: "col \<noteq> ''Substance''" "col \<noteq> ''Unit''" "col \<noteq> ''Source''"
      by (auto simp: numeric_columns_def expected_columns_def)
    have "df2 col = df1 col" unfolding df2_def using ne by simp
    then have "df2 col = Some (cell_or_default df col)" using l1[OF e] by simp
    then show "df3 col = Some (numeric_cell p df col)"
      unfolding l3 using h by (simp add: numeric_cell_def)
  qed
  have c2: "df3 ''Supply Chain Emission Factors without Margins'' = Some (numeric_cell p df ''Supply Chain Emission Factors without Margins'')"
    by (rule n) (simp add: numeric_columns_def)
  have c3: "df3 ''Margins of Supply Chain Emission Factors'' = Some (numeric_cell p df ''Margins of Supply Chain Emission Factors'')"
    by (rule n) (simp add: numeric_columns_def)
  have c4: "df3 ''DQ ReliabilityScore of Factors without Margins'' = Some (numeric_cell p df ''DQ ReliabilityScore of Factors without Margins'')"
    by (rule n) (simp add: numeric_columns_def)
  have c5: "df3 ''DQ TemporalCorrelation of Factors without Margins'' = Some (numeric_cell p df ''DQ TemporalCorrelation of Factors without Margins'')"
    by (rule n) (simp add: numeric_columns_def)
  have c6: "df3 ''DQ GeographicalCorrelation of Factors without Margins'' = Some (numeric_cell p df ''DQ GeographicalCorrelation of Factors without Margins'')"
    by (rule n) (simp add: numeric_columns_def)
  have c7: "df3 ''DQ TechnologicalCorrelation of Factors without Margins'' = Some (numeric_cell p df ''DQ TechnologicalCorrelation of Factors without Margins'')"
    by (rule n) (simp add: numeric_columns_def)
  have c8: "df3 ''DQ DataCollection of Factors without Margins'' = Some (numeric_cell p df ''DQ DataCollection of Factors without Margins'')"
    by (rule n) (simp add: numeric_columns_def)
  have sel: "select_columns expected_columns df3 = Inr [(''Substance'', a),
         (''Unit'', b),
         (''Supply Chain Emission Factors without Margins'',
            numeric_cell p df ''Supply Chain Emission Factors without Margins''),
         (''Margins of Supply Chain Emission Factors'',
            numeric_cell p df ''Margins of Supply Chain Emission Factors''),
         (''DQ ReliabilityScore of Factors without Margins'',
            numeric_cell p df ''DQ ReliabilityScore of Factors without Margins''),
         (''DQ TemporalCorrelation of Factors without Margins'',
            numeric_cell p df ''DQ TemporalCorrelation of Factors without Margins''),
         (''DQ GeographicalCorrelation of Factors without Margins'',
            numeric_cell p df ''DQ GeographicalCorrelation of Factors without Margins''),
         (''DQ TechnologicalCorrelation of Factors without Margins'',
            numeric_cell p df ''DQ TechnologicalCorrelation of Factors without Margins''),
         (''DQ DataCollection of Factors without Margins'',
            numeric_cell p df ''DQ DataCollection of Factors without Margins''),
         (''Source'', c)]"
    unfolding expected_columns_def select_columns.simps c0 c1 c2 c3 c4 c5 c6 c7 c8 c9 by simp
  show ?thesis
    unfolding preprocess_input_def Let_def df1_def[symmetric] enc
    by (simp add: df3_def[symmetric] sel)
qed

lemma numeric_cell_absent: "df col = None \<Longrightarrow> col \<notin> set [''Substance'', ''Unit'', ''Source'']
   \<Longrightarrow> numeric_cell p df col = VNum (Fin 0)"
  by (simp add: numeric_cell_def cell_or_default_def default_cell_def fillna_def)

lemma numeric_cell_present: "df col = Some v \<Longrightarrow>
   numeric_cell p df col = VNum (fillna (Fin 0) (to_numeric p v))"
  by (simp add: numeric_cell_def cell_or_default_def)







section \<open>The label encoder on the three vocabularies\<close>

lemma index_of_less: "x \<in> set xs \<Longrightarrow> index_of x xs < length xs"
  by (induction xs) auto

lemma set_le_fit: "set (le_fit cats) = set cats"
  by (simp add: le_fit_def)

lemma length_le_fit: "length (le_fit cats) \<le> length cats"
  by (simp add: le_fit_def)

lemma encode_value_seen:
  "s \<in> set cats \<Longrightarrow>
     encode_value cats (VStr s) = Inr (VNum (Fin (real (index_of s (le_fit cats)))))"
  by (simp add: encode_value_def replace_unseen_def py_in_def le_transform_def set_le_fit)

lemma encode_value_unseen:
  "\<not> py_in x (c # cs) \<Longrightarrow>
     encode_value (c # cs) x = Inr (VNum (Fin (real (index_of c (le_fit (c # cs))))))"
  by (simp add: encode_value_def replace_unseen_def le_transform_def set_le_fit)

lemma encode_value_total:
  "\<exists>k. k < length (c # cs) \<and> encode_value (c # cs) x = Inr (VNum (Fin (real k)))"
proof (cases "py_in x (c # cs)")
  case False
  have "index_of c (le_fit (c # cs)) < length (le_fit (c # cs))"
    by (rule index_of_less) (simp add: set_le_fit)
  then have "index_of c (le_fit (c # cs)) < length (c # cs)"
    using length_le_fit[of "c # cs"] by linarith
  then show ?thesis using encode_value_unseen[OF False] by blast
next
  case True
  then obtain s where x: "x = VStr s" and m: "s \<in> set (c # cs)"
    by (auto simp: py_in_def split: pyval.splits)
  have "index_of s (le_fit (c # cs)) < length (le_fit (c # cs))"
    using m by (intro index_of_less) (simp add: set_le_fit)
  then have "index_of s (le_fit (c # cs)) < length (c # cs)"
    using length_le_fit[of "c # cs"] by linarith
  then show ?thesis using encode_value_seen[OF m] x by blast
qed

lemma encode_col_code:
  "expected_categories col = Some cats \<Longrightarrow> encode_value cats x = Inr y \<Longrightarrow>
     encode_col col (df(col \<mapsto> x)) = Inr (df(col \<mapsto> y))"
  by (simp add: encode_col_def)

text \<open>The classes of the three encoders: the sort moves the second unit before the first.\<close>

lemma le_fit_substance:
  "le_fit [''carbon dioxide'', ''methane'', ''nitrous oxide'', ''other GHGs'']
     = [''carbon dioxide'', ''methane'', ''nitrous oxide'', ''other GHGs'']"
  by (simp add: le_fit_def)

lemma le_fit_unit:
  "le_fit [''kg/2018 USD, purchaser price'', ''kg CO2e/2018 USD, purchaser price'']
     = [''kg CO2e/2018 USD, purchaser price'', ''kg/2018 USD, purchaser price'']"
  by (simp add: le_fit_def)

lemma le_fit_source: "le_fit [''Commodity'', ''Industry''] = [''Commodity'', ''Industry'']"
  by (simp add: le_fit_def)

lemma expected_categories_simps:
  "expected_categories ''Substance''
     = Some [''carbon dioxide'', ''methane'', ''nitrous oxide'', ''other GHGs'']"
  "expected_categories ''Unit''
     = Some [''kg/2018 USD, purchaser price'', ''kg CO2e/2018 USD, purchaser price'']"
  "expected_categories ''Source'' = Some [''Commodity'', ''Industry'']"
  by (simp_all add: expected_categories_def)




lemma scenario1_cells:
  "cell_or_default scenario1 ''Substance'' = VStr ''carbon dioxide''"
  "cell_or_default scenario1 ''Unit'' = VStr ''kg/2018 USD, purchaser price''"
  "cell_or_default scenario1 ''Source'' = VStr ''Industry''"
  "numeric_cell p scenario1 ''Supply Chain Emission Factors without Margins'' = VNum (Fin 0.1)"
  "numeric_cell p scenario1 ''Margins of Supply Chain Emission Factors'' = VNum (Fin 0.01)"
  "numeric_cell p scenario1 ''DQ ReliabilityScore of Factors without Margins'' = VNum (Fin 0.5)"
  "numeric_cell p scenario1 ''DQ TemporalCorrelation of Factors without Margins'' = VNum (Fin 0.5)"
  "numeric_cell p scenario1 ''DQ GeographicalCorrelation of Factors without Margins'' = VNum (Fin 0.5)"
  "numeric_cell p scenario1 ''DQ TechnologicalCorrelation of Factors without Margins'' = VNum (Fin 0.5)"
  "numeric_cell p scenario1 ''DQ DataCollection of Factors without Margins'' = VNum (Fin 0.5)"
  by (simp_all add: scenario1_def cell_or_default_def numeric_cell_def fillna_def)

lemma scenario1_codes:
  "encode_value [''carbon dioxide'', ''methane'', ''nitrous oxide'', ''other GHGs'']
     (cell_or_default scenario1 ''Substance'') = Inr (VNum (Fin 0))"
  "encode_value [''kg/2018 USD, purchaser price'', ''kg CO2e/2018 USD, purchaser price'']
     (cell_or_default scenario1 ''Unit'') = Inr (VNum (Fin 1))"
  "encode_value [''Commodity'', ''Industry''] (cell_or_default scenario1 ''Source'')
     = Inr (VNum (Fin 1))"
  unfolding scenario1_cells
  by (simp_all add: encode_value_seen le_fit_substance le_fit_unit le_fit_source)

section \<open>The three loops of the validator\<close>

lemma check_required_None:
  "check_required fs d = None \<longleftrightarrow> (\<forall>f\<in>set fs. \<exists>v. d f = Some v \<and> v \<noteq> VNone)"
  by (induction fs) (auto split: option.splits)

lemma check_required_fst: "check_required fs d = Some r \<Longrightarrow> fst r = False"
  by (induction fs) (auto split: option.splits if_splits)

lemma check_numeric_None:
  "check_numeric p fs d = None \<longleftrightarrow>
     (\<forall>f\<in>set fs. \<forall>v. d f = Some v \<longrightarrow> (\<exists>n. py_float p v = Inr n \<and> \<not> num_less n (Fin 0)))"
  by (induction fs) (auto split: option.splits sum.splits)

lemma check_numeric_fst: "check_numeric p fs d = Some r \<Longrightarrow> fst r = False"
  by (induction fs) (auto split: option.splits sum.splits if_splits)

lemma check_dq_None:
  "check_dq p fs d = None \<longleftrightarrow>
     (\<forall>f\<in>set fs. \<forall>v. d f = Some v \<longrightarrow>
        (\<exists>n. py_float p v = Inr n \<and> num_le (Fin 0) n \<and> num_le n (Fin 1)))"
  by (induction fs) (auto split: option.splits sum.splits)

lemma check_dq_fst: "check_dq p fs d = Some r \<Longrightarrow> fst r = False"
  by (induction fs) (auto split: option.splits sum.splits if_splits)

lemma validate_ok_iff:
  "fst (validate_input_data p d) \<longleftrightarrow>
     check_required required_fields d = None \<and> check_numeric p numeric_fields d = None
      \<and> check_dq p dq_fields d = None"
  by (auto simp: validate_input_data_def split: option.splits
      dest: check_required_fst check_numeric_fst check_dq_fst)

lemma first_violation_append:
  "first_violation (xs @ ys) = (case first_violation xs of None \<Rightarrow> first_violation ys | Some r \<Rightarrow> Some r)"
  by (cases xs) (simp_all add: first_violation_def)

lemma check_required_first:
  "check_required fs d = first_violation (concat (map (required_violation d) fs))"
  by (induction fs) (auto simp: first_violation_def required_violation_def split: option.splits)

lemma check_numeric_first:
  "check_numeric p fs d = first_violation (concat (map (numeric_violation p d) fs))"
  by (induction fs) (auto simp: first_violation_def numeric_violation_def split: option.splits sum.splits)

lemma check_dq_first:
  "check_dq p fs d = first_violation (concat (map (dq_violation p d) fs))"
  by (induction fs) (auto simp: first_violation_def dq_violation_def split: option.splits sum.splits)

lemma validate_first:
  "validate_input_data p d =
     (case first_violation (all_violations p d) of None \<Rightarrow> (True, ''Valid'') | Some r \<Rightarrow> r)"
  unfolding validate_input_data_def all_violations_def first_violation_append
    check_required_first check_numeric_first check_dq_first
  by (simp split: option.splits)

lemma numeric_not_dq: "f \<in> set numeric_fields \<Longrightarrow> f \<notin> set dq_fields"
  by (auto simp: numeric_fields_def dq_fields_def)

lemma numeric_required: "f \<in> set numeric_fields \<Longrightarrow> f \<in> set required_fields"
  by (auto simp: numeric_fields_def required_fields_def)

lemma dq_not_required: "g \<in> set dq_fields \<Longrightarrow> g \<notin> set required_fields"
  by (auto simp: required_fields_def dq_fields_def)

lemma scenario1_valid: "validate_input_data p scenario1 = (True, ''Valid'')"
  by (simp add: validate_input_data_def scenario1_def required_fields_def numeric_fields_def
      dq_fields_def)

section \<open>The preprocessor on the store\<close>

lemma fold_store_update:
  "d < length st \<Longrightarrow>
     fold (\<lambda>col s. s[d := f col (s ! d)]) cols st = st[d := fold f cols (st ! d)]"
proof (induction cols arbitrary: st)
  case Nil
  then show ?case by simp
next
  case (Cons c cols)
  then show ?case by simp
qed

lemma encode_all_store_fst:
  "d < length st \<Longrightarrow>
     fst (encode_all_store cols d st) =
       (case encode_all cols (st ! d) of Inl e \<Rightarrow> Some e | Inr f \<Rightarrow> None)"
proof (induction cols arbitrary: st)
  case Nil
  then show ?case by simp
next
  case (Cons c cols)
  show ?case
  proof (cases "encode_col c (st ! d)")
    case (Inl e)
    then show ?thesis by simp
  next
    case (Inr f)
    have l: "d < length (st[d := f])" using Cons.prems by simp
    show ?thesis
      using Inr Cons.IH[OF l] Cons.prems by simp
  qed
qed

lemma encode_all_store_snd:
  "d < length st \<Longrightarrow> encode_all cols (st ! d) = Inr f \<Longrightarrow>
     snd (encode_all_store cols d st) = st[d := f]"
proof (induction cols arbitrary: st)
  case Nil
  then show ?case by auto
next
  case (Cons c cols)
  from Cons.prems(2) obtain g where g: "encode_col c (st ! d) = Inr g"
    and r: "encode_all cols g = Inr f"
    by (auto split: sum.splits)
  have l: "d < length (st[d := g])" using Cons.prems by simp
  have "encode_all cols (st[d := g] ! d) = Inr f" using r Cons.prems(1) by simp
  from Cons.IH[OF l this] show ?case using g by simp
qed

lemma encode_all_store_take:
  "d < length st \<Longrightarrow> n \<le> d \<Longrightarrow>
     take n (snd (encode_all_store cols d st)) = take n st
     \<and> length (snd (encode_all_store cols d st)) = length st"
proof (induction cols arbitrary: st)
  case Nil
  then show ?case by simp
next
  case (Cons c cols)
  show ?case
  proof (cases "encode_col c (st ! d)")
    case (Inl e)
    then show ?thesis by simp
  next
    case (Inr f)
    have l: "d < length (st[d := f])" using Cons.prems by simp
    show ?thesis
      using Inr Cons.IH[OF l Cons.prems(2)] Cons.prems by simp
  qed
qed

lemma preprocess_input_store_result:
  assumes "input_df < length st"
  shows "fst (preprocess_input_store p input_df st) = preprocess_input p (st ! input_df)"
    and "take (length st) (snd (preprocess_input_store p input_df st)) = st"
proof -
  define d where "d = length st"
  define st0 where "st0 = st @ [st ! input_df]"
  define st1 where "st1 = fold (\<lambda>col s. s[d := fill_missing_col col (s ! d)]) expected_columns st0"
  have d0: "d < length st0" by (simp add: d_def st0_def)
  have st0d: "st0 ! d = st ! input_df" by (simp add: d_def st0_def)
  have st1eq: "st1 = st0[d := fold fill_missing_col expected_columns (st ! input_df)]"
    unfolding st1_def fold_store_update[OF d0] st0d ..
  have d1: "d < length st1" using d0 by (simp add: st1eq)
  have st1d: "st1 ! d = fold fill_missing_col expected_columns (st ! input_df)"
    using d0 by (simp add: st1eq)
  have t1: "take d st1 = st" by (simp add: st1eq st0_def d_def)
  have l1: "length (snd (encode_all_store categorical_columns d st1)) = length st1"
    and t2: "take d (snd (encode_all_store categorical_columns d st1)) = st"
    using encode_all_store_take[OF d1 order_refl, of categorical_columns] t1 by simp_all
  have unf: "preprocess_input_store p input_df st =
      (case encode_all_store categorical_columns d st1 of
           (Some e, st) \<Rightarrow> (Inl e, st)
         | (None, st) \<Rightarrow>
             (let st = fold (\<lambda>col s. s[d := coerce_col p col (s ! d)]) numeric_columns st
              in (select_columns expected_columns (st ! d), st)))"
    unfolding preprocess_input_store_def st1_def st0_def d_def Let_def by (rule refl)
  obtain r s where rs: "encode_all_store categorical_columns d st1 = (r, s)"
    by (cases "encode_all_store categorical_columns d st1")
  have ls: "d < length s" and ts: "take d s = st" using rs l1 t2 d1 by simp_all
  have r: "r = (case encode_all categorical_columns (st1 ! d) of Inl e \<Rightarrow> Some e | Inr f \<Rightarrow> None)"
    using encode_all_store_fst[OF d1, of categorical_columns] rs by simp
  show "fst (preprocess_input_store p input_df st) = preprocess_input p (st ! input_df)"
  proof (cases "encode_all categorical_columns (st1 ! d)")
    case (Inl e)
    then show ?thesis
      unfolding unf rs using r st1d by (simp add: preprocess_input_def Let_def)
  next
    case (Inr f)
    have s: "s = st1[d := f]" using encode_all_store_snd[OF d1 Inr] rs by simp
    have l: "d < length (st1[d := f])" using d1 by simp
    show ?thesis
      unfolding unf rs s using r Inr st1d d1
      by (simp add: preprocess_input_def Let_def fold_store_update[OF l])
  qed
  have c: "fold (\<lambda>col s. s[d := coerce_col p col (s ! d)]) numeric_columns s
             = s[d := fold (coerce_col p) numeric_columns (s ! d)]"
    by (rule fold_store_update[OF ls])
  have "take d (snd (preprocess_input_store p input_df st)) = st"
  proof (cases r)
    case None
    then show ?thesis unfolding unf rs by (simp add: Let_def c ts)
  next
    case (Some e)
    then show ?thesis unfolding unf rs by (simp add: ts)
  qed
  then show "take (length st) (snd (preprocess_input_store p input_df st)) = st"
    by (simp add: d_def)
qed

section \<open>The two preprocessors side by side\<close>

lemma select_columns_cong:
  "(\<And>c. c \<in> set cols \<Longrightarrow> df c = df' c) \<Longrightarrow> select_columns cols df = select_columns cols df'"
  by (induction cols) (auto split: option.splits sum.splits)

lemma preprocess_input_simple_test_row:
  assumes s: "df ''Substance'' = Some a" and u: "df ''Unit'' = Some b" and so: "df ''Source'' = Some c"
  shows "preprocess_input_simple_test df =
     select_columns expected_columns
       (df(''Substance'' \<mapsto> series_map substance_map a, ''Unit'' \<mapsto> series_map unit_map b,
           ''Source'' \<mapsto> series_map source_map c))"
  using assms by (simp add: preprocess_input_simple_test_def map_col_def)

lemma series_map_substance:
  "s \<in> set [''carbon dioxide'', ''methane'', ''nitrous oxide'', ''other GHGs''] \<Longrightarrow>
     Inr (series_map substance_map (VStr s))
       = encode_value [''carbon dioxide'', ''methane'', ''nitrous oxide'', ''other GHGs''] (VStr s)"
  by (auto simp: series_map_def substance_map_def encode_value_seen le_fit_substance)

lemma series_map_source:
  "s \<in> set [''Commodity'', ''Industry''] \<Longrightarrow>
     Inr (series_map source_map (VStr s)) = encode_value [''Commodity'', ''Industry''] (VStr s)"
  by (auto simp: series_map_def source_map_def encode_value_seen le_fit_source)


lemma numeric_cell_number:
  "df c = Some (VNum n) \<Longrightarrow> n \<noteq> NaN \<Longrightarrow> numeric_cell p df c = VNum n"
  by (simp add: numeric_cell_def cell_or_default_def fillna_def)

lemma string_margin_cells:
  "cell_or_default string_margin ''Substance'' = VStr ''carbon dioxide''"
  "cell_or_default string_margin ''Unit'' = VStr ''kg/2018 USD, purchaser price''"
  "cell_or_default string_margin ''Source'' = VStr ''Industry''"
  "numeric_cell p string_margin ''Supply Chain Emission Factors without Margins'' = VNum (Fin 0.1)"
  "numeric_cell (map_of [(''0.01'', Fin 0.01)]) string_margin
     ''Margins of Supply Chain Emission Factors'' = VNum (Fin 0.01)"
  "numeric_cell p string_margin ''DQ ReliabilityScore of Factors without Margins'' = VNum (Fin 0.5)"
  "numeric_cell p string_margin ''DQ TemporalCorrelation of Factors without Margins'' = VNum (Fin 0.5)"
  "numeric_cell p string_margin ''DQ GeographicalCorrelation of Factors without Margins'' = VNum (Fin 0.5)"
  "numeric_cell p string_margin ''DQ TechnologicalCorrelation of Factors without Margins'' = VNum (Fin 0.5)"
  "numeric_cell p string_margin ''DQ DataCollection of Factors without Margins'' = VNum (Fin 0.5)"
  by (simp_all add: string_margin_def scenario1_def cell_or_default_def numeric_cell_def fillna_def)

lemma string_margin_codes:
  "encode_value [''carbon dioxide'', ''methane'', ''nitrous oxide'', ''other GHGs'']
     (cell_or_default string_margin ''Substance'') = Inr (VNum (Fin 0))"
  "encode_value [''kg/2018 USD, purchaser price'', ''kg CO2e/2018 USD, purchaser price'']
     (cell_or_default string_margin ''Unit'') = Inr (VNum (Fin 1))"
  "encode_value [''Commodity'', ''Industry''] (cell_or_default string_margin ''Source'')
     = Inr (VNum (Fin 1))"
  unfolding string_margin_cells
  by (simp_all add: encode_value_seen le_fit_substance le_fit_unit le_fit_source)

lemma string_margin_lookup:
  "string_margin ''Substance'' = Some (VStr ''carbon dioxide'')"
  "string_margin ''Unit'' = Some (VStr ''kg/2018 USD, purchaser price'')"
  "string_margin ''Source'' = Some (VStr ''Industry'')"
  by (simp_all add: string_margin_def scenario1_def)

section \<open>Claims\<close>

text \<open>
  C1. On the record of scenario 1 the specification expects the feature vector
  \<open>[0, 0, 0.1, 0.01, 0.5, 0.5, 0.5, 0.5, 0.5, 1]\<close>. The preprocessor of the module
  returns 1 in the second place: the encoder sorts its classes, and
  \<open>kg/2018 USD, purchaser price\<close> is the second of the two units in sorted order.
\<close>

theorem scenario1_feature_vector:
  "feature_vector (preprocess_input parse scenario1) =
     Inr [VNum (Fin 0), VNum (Fin 1), VNum (Fin 0.1), VNum (Fin 0.01), VNum (Fin 0.5),
          VNum (Fin 0.5), VNum (Fin 0.5), VNum (Fin 0.5), VNum (Fin 0.5), VNum (Fin 1)]"
  unfolding preprocess_input_row[OF scenario1_codes] scenario1_cells feature_vector_def
  by simp

text \<open>
  C2. The codes of the values of the three vocabularies, as the second loop of the
  module assigns them. Substance and source have the documented codes; the two units have
  each other's: \<open>kg/2018 USD, purchaser price\<close> is 1 and
  \<open>kg CO2e/2018 USD, purchaser price\<close> is 0.
\<close>

theorem vocabulary_codes:
  "encode_col ''Substance'' (df(''Substance'' \<mapsto> VStr ''carbon dioxide''))
     = Inr (df(''Substance'' \<mapsto> VNum (Fin 0)))
   \<and> encode_col ''Substance'' (df(''Substance'' \<mapsto> VStr ''methane''))
     = Inr (df(''Substance'' \<mapsto> VNum (Fin 1)))
   \<and> encode_col ''Substance'' (df(''Substance'' \<mapsto> VStr ''nitrous oxide''))
     = Inr (df(''Substance'' \<mapsto> VNum (Fin 2)))
   \<and> encode_col ''Substance'' (df(''Substance'' \<mapsto> VStr ''other GHGs''))
     = Inr (df(''Substance'' \<mapsto> VNum (Fin 3)))
   \<and> encode_col ''Unit'' (df(''Unit'' \<mapsto> VStr ''kg/2018 USD, purchaser price''))
     = Inr (df(''Unit'' \<mapsto> VNum (Fin 1)))
   \<and> encode_col ''Unit'' (df(''Unit'' \<mapsto> VStr ''kg CO2e/2018 USD, purchaser price''))
     = Inr (df(''Unit'' \<mapsto> VNum (Fin 0)))
   \<and> encode_col ''Source'' (df(''Source'' \<mapsto> VStr ''Commodity''))
     = Inr (df(''Source'' \<mapsto> VNum (Fin 0)))
   \<and> encode_col ''Source'' (df(''Source'' \<mapsto> VStr ''Industry''))
     = Inr (df(''Source'' \<mapsto> VNum (Fin 1)))"
  by (simp add: encode_col_code[OF expected_categories_simps(1)]
      encode_col_code[OF expected_categories_simps(2)]
      encode_col_code[OF expected_categories_simps(3)]
      encode_value_seen le_fit_substance le_fit_unit le_fit_source)

text \<open>
  C3. A value outside the vocabulary of its column never makes the encoding fail: it is
  replaced by the first entry of the vocabulary and gets the code of that entry. This is
  0 for substance and for source, and 1 for unit, whose first entry is the second class
  of the fitted encoder.
\<close>

theorem unseen_value_codes:
  assumes "expected_categories ''Substance'' = Some substances" and "\<not> py_in x substances"
    and "expected_categories ''Unit'' = Some units" and "\<not> py_in y units"
    and "expected_categories ''Source'' = Some sources" and "\<not> py_in z sources"
  shows "encode_col ''Substance'' (df(''Substance'' \<mapsto> x))
           = Inr (df(''Substance'' \<mapsto> VNum (Fin 0)))
       \<and> encode_col ''Unit'' (df(''Unit'' \<mapsto> y)) = Inr (df(''Unit'' \<mapsto> VNum (Fin 1)))
       \<and> encode_col ''Source'' (df(''Source'' \<mapsto> z)) = Inr (df(''Source'' \<mapsto> VNum (Fin 0)))"
proof (intro conjI)
  from assms(1) have c: "substances = [''carbon dioxide'', ''methane'', ''nitrous oxide'', ''other GHGs'']"
    by (simp add: expected_categories_simps)
  show "encode_col ''Substance'' (df(''Substance'' \<mapsto> x))
          = Inr (df(''Substance'' \<mapsto> VNum (Fin 0)))"
    using assms(2) unfolding c
    by (intro encode_col_code[OF expected_categories_simps(1)])
       (simp add: encode_value_unseen le_fit_substance)
next
  from assms(3) have c: "units = [''kg/2018 USD, purchaser price'', ''kg CO2e/2018 USD, purchaser price'']"
    by (simp add: expected_categories_simps)
  show "encode_col ''Unit'' (df(''Unit'' \<mapsto> y)) = Inr (df(''Unit'' \<mapsto> VNum (Fin 1)))"
    using assms(4) unfolding c
    by (intro encode_col_code[OF expected_categories_simps(2)])
       (simp add: encode_value_unseen le_fit_unit)
next
  from assms(5) have c: "sources = [''Commodity'', ''Industry'']"
    by (simp add: expected_categories_simps)
  show "encode_col ''Source'' (df(''Source'' \<mapsto> z)) = Inr (df(''Source'' \<mapsto> VNum (Fin 0)))"
    using assms(6) unfolding c
    by (intro encode_col_code[OF expected_categories_simps(3)])
       (simp add: encode_value_unseen le_fit_source)
qed

theorem unseen_value_codes_witness:
  "encode_col ''Substance'' (Map.empty(''Substance'' \<mapsto> VStr ''xenon''))
      = Inr (Map.empty(''Substance'' \<mapsto> VNum (Fin 0)))
   \<and> encode_col ''Unit'' (Map.empty(''Unit'' \<mapsto> VStr ''liters''))
      = Inr (Map.empty(''Unit'' \<mapsto> VNum (Fin 1)))
   \<and> encode_col ''Source'' (Map.empty(''Source'' \<mapsto> VNone))
      = Inr (Map.empty(''Source'' \<mapsto> VNum (Fin 0)))"
proof -
  have x: "\<not> py_in (VStr ''xenon'') [''carbon dioxide'', ''methane'', ''nitrous oxide'', ''other GHGs'']"
    by (simp add: py_in_def)
  have y: "\<not> py_in (VStr ''liters'')
             [''kg/2018 USD, purchaser price'', ''kg CO2e/2018 USD, purchaser price'']"
    by (simp add: py_in_def)
  have z: "\<not> py_in VNone [''Commodity'', ''Industry'']"
    by (simp add: py_in_def)
  show ?thesis
    by (rule unseen_value_codes[OF expected_categories_simps(1) x
          expected_categories_simps(2) y expected_categories_simps(3) z])
qed

text \<open>
  C4. The validator is claimed to succeed exactly when the supply factor and the margin
  parse as non-negative real numbers and every data-quality score that is present parses
  into the closed interval from 0 to 1. The sign check \<open>val < 0\<close> is false on \<open>NaN\<close>, so
  the record of scenario 1 with a \<open>NaN\<close> supply factor is accepted, although \<open>NaN\<close> is
  no non-negative real number; the range check of the data-quality loop rejects \<open>NaN\<close>.
\<close>

theorem nan_supply_factor_is_accepted:
  "validate_input_data parse
     (scenario1(''Supply Chain Emission Factors without Margins'' \<mapsto> VNum NaN))
     = (True, ''Valid'')"
  by (simp add: validate_input_data_def scenario1_def required_fields_def numeric_fields_def
      dq_fields_def)

text \<open>
  C7. The impact level: a prediction above 0.1 is High, a prediction above 0.05 and at
  most 0.1 is Medium, and every other prediction, \<open>NaN\<close> among them, is Low.
\<close>

theorem impact_level_thresholds:
  "impact_level p =
     (if num_less (Fin 0.1) p then ''High''
      else if num_less (Fin 0.05) p \<and> num_le p (Fin 0.1) then ''Medium''
      else ''Low'')"
  by (cases p) (auto simp: impact_level_def)

text \<open>
  C5. The validator returns one result: the first entry of the list of all violations
  (presence of the required fields, then type and sign of the two numeric fields, then
  the data-quality scores), or success when the list is empty. It fails whenever a
  required field is absent or null, and on a record that lacks only \<open>Source\<close> the
  message is the missing-field message for \<open>Source\<close>. The validator is a function of the
  record and the string conversion alone.
\<close>

theorem validate_reports_first_violation:
  "validate_input_data p d =
     (case all_violations p d of [] \<Rightarrow> (True, ''Valid'') | m # ms \<Rightarrow> (False, m))
   \<and> ((\<exists>f\<in>set required_fields. d f = None \<or> d f = Some VNone)
        \<longrightarrow> fst (validate_input_data p d) = False)
   \<and> ((\<forall>f\<in>set [''Substance'', ''Unit'', ''Supply Chain Emission Factors without Margins'',
                   ''Margins of Supply Chain Emission Factors'']. \<exists>v. d f = Some v \<and> v \<noteq> VNone)
        \<and> d ''Source'' = None
        \<longrightarrow> validate_input_data p d = (False, ''Missing required field: Source''))"
proof (intro conjI impI)
  show "validate_input_data p d =
     (case all_violations p d of [] \<Rightarrow> (True, ''Valid'') | m # ms \<Rightarrow> (False, m))"
    unfolding validate_first by (simp add: first_violation_def split: list.splits)
next
  assume "\<exists>f\<in>set required_fields. d f = None \<or> d f = Some VNone"
  then have "check_required required_fields d \<noteq> None"
    unfolding check_required_None by fastforce
  then show "fst (validate_input_data p d) = False"
    using validate_ok_iff[of p d] by simp
next
  assume h: "(\<forall>f\<in>set [''Substance'', ''Unit'', ''Supply Chain Emission Factors without Margins'',
                   ''Margins of Supply Chain Emission Factors'']. \<exists>v. d f = Some v \<and> v \<noteq> VNone)
        \<and> d ''Source'' = None"
  then have "check_required required_fields d = Some (False, ''Missing required field: Source'')"
    by (auto simp: required_fields_def)
  then show "validate_input_data p d = (False, ''Missing required field: Source'')"
    by (simp add: validate_input_data_def)
qed

theorem validate_reports_first_violation_witness:
  "validate_input_data Map.empty (scenario1(''Source'' := None))
     = (False, ''Missing required field: Source'')
   \<and> fst (validate_input_data Map.empty (scenario1(''Source'' := None))) = False"
proof -
  let ?d = "scenario1(''Source'' := None)"
  have h1: "\<exists>f\<in>set required_fields. ?d f = None \<or> ?d f = Some VNone"
    by (simp add: required_fields_def)
  have h2: "(\<forall>f\<in>set [''Substance'', ''Unit'', ''Supply Chain Emission Factors without Margins'',
                   ''Margins of Supply Chain Emission Factors'']. \<exists>v. ?d f = Some v \<and> v \<noteq> VNone)
        \<and> ?d ''Source'' = None"
    by (simp add: scenario1_def)
  from validate_reports_first_violation[of Map.empty ?d] h1 h2 show ?thesis
    by blast
qed

text \<open>
  C10. A value that converts to \<open>NaN\<close>, the float itself or a string such as \<open>nan\<close>,
  passes the validator in a required numeric field, since \<open>val < 0\<close> is false on it: a
  valid record stays valid when its supply factor or its margin is replaced by such a
  value. In a data-quality field it is rejected, since \<open>0.0 <= val <= 1.0\<close> is false on
  it.
\<close>

theorem nan_passes_sign_check_fails_range_check:
  assumes ok: "fst (validate_input_data p d)"
    and f: "f \<in> set numeric_fields" and v: "py_float p v = Inr NaN"
    and g: "g \<in> set dq_fields" and w: "py_float p w = Inr NaN"
  shows "validate_input_data p (d(f \<mapsto> v)) = (True, ''Valid'')
       \<and> fst (validate_input_data p (d(g \<mapsto> w))) = False"
proof
  from ok have r: "check_required required_fields d = None"
    and n: "check_numeric p numeric_fields d = None"
    and q: "check_dq p dq_fields d = None"
    by (simp_all add: validate_ok_iff)
  from v have vn: "v \<noteq> VNone" by auto
  have r': "check_required required_fields (d(f \<mapsto> v)) = None"
    using r vn unfolding check_required_None by auto
  have n': "check_numeric p numeric_fields (d(f \<mapsto> v)) = None"
    using n v unfolding check_numeric_None by auto
  have q': "check_dq p dq_fields (d(f \<mapsto> v)) = None"
    using q numeric_not_dq[OF f] unfolding check_dq_None by auto
  show "validate_input_data p (d(f \<mapsto> v)) = (True, ''Valid'')"
    by (simp add: validate_input_data_def r' n' q')
  have "check_dq p dq_fields (d(g \<mapsto> w)) \<noteq> None"
    unfolding check_dq_None using g w by auto
  then show "fst (validate_input_data p (d(g \<mapsto> w))) = False"
    using validate_ok_iff[of p "d(g \<mapsto> w)"] by simp
qed

theorem nan_passes_sign_check_fails_range_check_witness:
  "validate_input_data (map_of [(''nan'', NaN)])
     (scenario1(''Supply Chain Emission Factors without Margins'' \<mapsto> VStr ''nan''))
     = (True, ''Valid'')
   \<and> fst (validate_input_data (map_of [(''nan'', NaN)])
       (scenario1(''DQ ReliabilityScore of Factors without Margins'' \<mapsto> VStr ''nan''))) = False"
proof -
  let ?p = "map_of [(''nan'', NaN)]"
  have ok: "fst (validate_input_data ?p scenario1)" by (simp add: scenario1_valid)
  have f: "''Supply Chain Emission Factors without Margins'' \<in> set numeric_fields"
    by (simp add: numeric_fields_def)
  have g: "''DQ ReliabilityScore of Factors without Margins'' \<in> set dq_fields"
    by (simp add: dq_fields_def)
  have v: "py_float ?p (VStr ''nan'') = Inr NaN" by simp
  show ?thesis
    by (rule nan_passes_sign_check_fails_range_check[OF ok f v g v])
qed



text \<open>
  C8. The call works on a copy. Whatever frames the store holds and whichever of them is
  passed, the result is the value of the pure function \<open>preprocess_input\<close> on the
  content of that frame; every frame that was in the store before the call, the caller's
  input among them, is unchanged after it; and a second call on the same object returns
  the same result as the first.
\<close>

theorem preprocess_input_pure_idempotent:
  assumes "input_df < length st"
  shows "fst (preprocess_input_store p input_df st) = preprocess_input p (st ! input_df)
       \<and> take (length st) (snd (preprocess_input_store p input_df st)) = st
       \<and> snd (preprocess_input_store p input_df st) ! input_df = st ! input_df
       \<and> fst (preprocess_input_store p input_df (snd (preprocess_input_store p input_df st)))
           = fst (preprocess_input_store p input_df st)"
proof -
  define st' where "st' = snd (preprocess_input_store p input_df st)"
  have r: "fst (preprocess_input_store p input_df st) = preprocess_input p (st ! input_df)"
    by (rule preprocess_input_store_result(1)[OF assms])
  have t: "take (length st) st' = st"
    unfolding st'_def by (rule preprocess_input_store_result(2)[OF assms])
  have n: "st' ! input_df = st ! input_df"
    using assms nth_take[of input_df "length st" st'] t by simp
  have "length st \<le> length st'"
    using t by (metis length_take min.cobounded1)
  then have l: "input_df < length st'" using assms by simp
  have r': "fst (preprocess_input_store p input_df st') = preprocess_input p (st' ! input_df)"
    by (rule preprocess_input_store_result(1)[OF l])
  show ?thesis
    using r t n r' unfolding st'_def by simp
qed

theorem preprocess_input_pure_idempotent_witness:
  "fst (preprocess_input_store Map.empty 0 [scenario1]) = preprocess_input Map.empty scenario1
   \<and> take 1 (snd (preprocess_input_store Map.empty 0 [scenario1])) = [scenario1]
   \<and> fst (preprocess_input_store Map.empty 0 (snd (preprocess_input_store Map.empty 0 [scenario1])))
       = fst (preprocess_input_store Map.empty 0 [scenario1])"
proof -
  have h: "0 < length [scenario1]" by simp
  from preprocess_input_pure_idempotent[OF h, of Map.empty] show ?thesis by simp
qed

text \<open>
  C9. The preprocessor of the module and the one of \<open>simple_test.py\<close> are claimed to
  return the same row on every record whose three categorical values are in their
  vocabularies and whose seven numeric fields are present. They do not: the module
  parses a numeric field that is given as a string, and the test script passes the
  string on (and the two unit codes differ, see C1 and C2). On the record of scenario 1
  with the margin \<open>'0.01'\<close> the two rows are as follows.
\<close>

theorem implementations_differ:
  "feature_vector (preprocess_input (map_of [(''0.01'', Fin 0.01)]) string_margin) =
     Inr [VNum (Fin 0), VNum (Fin 1), VNum (Fin 0.1), VNum (Fin 0.01), VNum (Fin 0.5),
          VNum (Fin 0.5), VNum (Fin 0.5), VNum (Fin 0.5), VNum (Fin 0.5), VNum (Fin 1)]
   \<and> feature_vector (preprocess_input_simple_test string_margin) =
     Inr [VNum (Fin 0), VNum (Fin 0), VNum (Fin 0.1), VStr ''0.01'', VNum (Fin 0.5),
          VNum (Fin 0.5), VNum (Fin 0.5), VNum (Fin 0.5), VNum (Fin 0.5), VNum (Fin 1)]
   \<and> preprocess_input (map_of [(''0.01'', Fin 0.01)]) string_margin
       \<noteq> preprocess_input_simple_test string_margin"
proof -
  have r: "feature_vector (preprocess_input (map_of [(''0.01'', Fin 0.01)]) string_margin) =
     Inr [VNum (Fin 0), VNum (Fin 1), VNum (Fin 0.1), VNum (Fin 0.01), VNum (Fin 0.5),
          VNum (Fin 0.5), VNum (Fin 0.5), VNum (Fin 0.5), VNum (Fin 0.5), VNum (Fin 1)]"
    unfolding preprocess_input_row[OF string_margin_codes] string_margin_cells feature_vector_def
    by simp
  have r': "feature_vector (preprocess_input_simple_test string_margin) =
     Inr [VNum (Fin 0), VNum (Fin 0), VNum (Fin 0.1), VStr ''0.01'', VNum (Fin 0.5),
          VNum (Fin 0.5), VNum (Fin 0.5), VNum (Fin 0.5), VNum (Fin 0.5), VNum (Fin 1)]"
    unfolding preprocess_input_simple_test_row[OF string_margin_lookup] expected_columns_def
      feature_vector_def
    by (simp add: string_margin_def scenario1_def series_map_def substance_map_def unit_map_def
        source_map_def)
  have "feature_vector (preprocess_input (map_of [(''0.01'', Fin 0.01)]) string_margin)
          \<noteq> feature_vector (preprocess_input_simple_test string_margin)"
    unfolding r r' by simp
  then have "preprocess_input (map_of [(''0.01'', Fin 0.01)]) string_margin
       \<noteq> preprocess_input_simple_test string_margin" by auto
  with r r' show ?thesis by simp
qed

text \<open>
  C9, amended. When the three categorical values are in their vocabularies and each of
  the seven numeric fields holds a number other than \<open>NaN\<close>, both preprocessors return
  a row of ten cells, and the two rows agree in every place other than the unit code.
\<close>

theorem implementations_agree_except_unit:
  assumes s: "df ''Substance'' = Some (VStr s)"
      "s \<in> set [''carbon dioxide'', ''methane'', ''nitrous oxide'', ''other GHGs'']"
    and u: "df ''Unit'' = Some (VStr u)"
      "u \<in> set [''kg/2018 USD, purchaser price'', ''kg CO2e/2018 USD, purchaser price'']"
    and so: "df ''Source'' = Some (VStr so)" "so \<in> set [''Commodity'', ''Industry'']"
    and nums: "\<forall>c\<in>set numeric_columns. \<exists>n. df c = Some (VNum n) \<and> n \<noteq> NaN"
  shows "\<exists>row row'. preprocess_input p df = Inr row
       \<and> preprocess_input_simple_test df = Inr row'
       \<and> length row = 10 \<and> length row' = 10
       \<and> fst (row ! 1) = ''Unit'' \<and> fst (row' ! 1) = ''Unit''
       \<and> (\<forall>i\<in>{0, 2, 3, 4, 5, 6, 7, 8, 9::nat}. row ! i = row' ! i)"
proof -
  have a: "encode_value [''carbon dioxide'', ''methane'', ''nitrous oxide'', ''other GHGs'']
             (cell_or_default df ''Substance'') = Inr (series_map substance_map (VStr s))"
    using series_map_substance[OF s(2)] s(1) by (simp add: cell_or_default_def)
  have c: "encode_value [''Commodity'', ''Industry''] (cell_or_default df ''Source'')
             = Inr (series_map source_map (VStr so))"
    using series_map_source[OF so(2)] so(1) by (simp add: cell_or_default_def)
  have b: "encode_value [''kg/2018 USD, purchaser price'', ''kg CO2e/2018 USD, purchaser price'']
             (cell_or_default df ''Unit'')
           = Inr (VNum (Fin (real (index_of u
               (le_fit [''kg/2018 USD, purchaser price'', ''kg CO2e/2018 USD, purchaser price''])))))"
    using encode_value_seen[OF u(2)] u(1) by (simp add: cell_or_default_def)
  from nums obtain n2 n3 n4 n5 n6 n7 n8 where
    n2: "df ''Supply Chain Emission Factors without Margins'' = Some (VNum n2)" "n2 \<noteq> NaN" and
    n3: "df ''Margins of Supply Chain Emission Factors'' = Some (VNum n3)" "n3 \<noteq> NaN" and
    n4: "df ''DQ ReliabilityScore of Factors without Margins'' = Some (VNum n4)" "n4 \<noteq> NaN" and
    n5: "df ''DQ TemporalCorrelation of Factors without Margins'' = Some (VNum n5)" "n5 \<noteq> NaN" and
    n6: "df ''DQ GeographicalCorrelation of Factors without Margins'' = Some (VNum n6)" "n6 \<noteq> NaN" and
    n7: "df ''DQ TechnologicalCorrelation of Factors without Margins'' = Some (VNum n7)" "n7 \<noteq> NaN" and
    n8: "df ''DQ DataCollection of Factors without Margins'' = Some (VNum n8)" "n8 \<noteq> NaN"
    unfolding numeric_columns_def by force
  note cells = numeric_cell_number[of df _ _ p, OF n2] numeric_cell_number[of df _ _ p, OF n3]
    numeric_cell_number[of df _ _ p, OF n4] numeric_cell_number[of df _ _ p, OF n5]
    numeric_cell_number[of df _ _ p, OF n6] numeric_cell_number[of df _ _ p, OF n7]
    numeric_cell_number[of df _ _ p, OF n8]
  have r': "preprocess_input_simple_test df =
      Inr [(''Substance'', series_map substance_map (VStr s)),
           (''Unit'', series_map unit_map (VStr u)),
           (''Supply Chain Emission Factors without Margins'', VNum n2),
           (''Margins of Supply Chain Emission Factors'', VNum n3),
           (''DQ ReliabilityScore of Factors without Margins'', VNum n4),
           (''DQ TemporalCorrelation of Factors without Margins'', VNum n5),
           (''DQ GeographicalCorrelation of Factors without Margins'', VNum n6),
           (''DQ TechnologicalCorrelation of Factors without Margins'', VNum n7),
           (''DQ DataCollection of Factors without Margins'', VNum n8),
           (''Source'', series_map source_map (VStr so))]"
    unfolding preprocess_input_simple_test_row[OF s(1) u(1) so(1)] expected_columns_def
    using n2(1) n3(1) n4(1) n5(1) n6(1) n7(1) n8(1) by simp
  show ?thesis
    unfolding preprocess_input_row[OF a b c] r' cells
    by (intro exI conjI; (rule refl)?) simp_all
qed

theorem implementations_agree_except_unit_witness:
  "\<exists>row row'. preprocess_input Map.empty scenario1 = Inr row
       \<and> preprocess_input_simple_test scenario1 = Inr row'
       \<and> length row = 10 \<and> length row' = 10
       \<and> fst (row ! 1) = ''Unit'' \<and> fst (row' ! 1) = ''Unit''
       \<and> (\<forall>i\<in>{0, 2, 3, 4, 5, 6, 7, 8, 9::nat}. row ! i = row' ! i)"
proof -
  have s: "scenario1 ''Substance'' = Some (VStr ''carbon dioxide'')"
    "''carbon dioxide'' \<in> set [''carbon dioxide'', ''methane'', ''nitrous oxide'', ''other GHGs'']"
    by (simp_all add: scenario1_def)
  have u: "scenario1 ''Unit'' = Some (VStr ''kg/2018 USD, purchaser price'')"
    "''kg/2018 USD, purchaser price''
       \<in> set [''kg/2018 USD, purchaser price'', ''kg CO2e/2018 USD, purchaser price'']"
    by (simp_all add: scenario1_def)
  have so: "scenario1 ''Source'' = Some (VStr ''Industry'')"
    "''Industry'' \<in> set [''Commodity'', ''Industry'']"
    by (simp_all add: scenario1_def)
  have nums: "\<forall>c\<in>set numeric_columns. \<exists>n. scenario1 c = Some (VNum n) \<and> n \<noteq> NaN"
    by (simp add: numeric_columns_def scenario1_def)
  show ?thesis
    by (rule implementations_agree_except_unit[OF s u so nums])
qed

end
